theory Spec2Isabelle
  imports Complex_Main "HOL-Library.AList" "HOL-Library.List_Lexorder" "HOL-Library.Char_ord"
begin

section \<open>JSON documents and files\<close>

text \<open>
  A document is the tree that \<^verbatim>\<open>encoding/json\<close> decodes a text into. An object is listed as
  its members; \<open>map_of\<close> reads a member, so the order of the list carries no meaning for a
  lookup and a key stands for one member. Where the Go code ranges over a decoded map, whose
  iteration order the language leaves open, the order of the list stands for the order the
  run time happened to choose. A number is the \<^verbatim>\<open>float64\<close> the decoder produced; the rounding
  of a long literal at decoding is outside this model.
\<close>

datatype json =
    JNull
  | JBool bool
  | JNum real
  | JStr string
  | JArr "json list"
  | JObj "(string \<times> json) list"

text \<open>
  What \<^verbatim>\<open>os.ReadFile\<close> can meet at a path: no file, a file that cannot be read for another
  reason, or bytes, which are the text of a JSON value or are not.
\<close>

datatype bytes = Garbage | Text json

datatype disk_file = Absent | Denied | File bytes

text \<open>
  Go errors. \<open>Wrap\<close> is \<^verbatim>\<open>fmt.Errorf("<prefix>: %w", err)\<close>; \<open>AlreadyExists\<close> and
  \<open>NotFound\<close> are the two messages \<^verbatim>\<open>MCP server '<name>' already exists\<close> and
  \<^verbatim>\<open>MCP server '<name>' not found\<close> of the writer; \<open>NilMapPanic\<close> is the run-time panic
  of an assignment to an entry of a nil map.
\<close>

datatype error =
    NotExist
  | ReadFailure
  | SyntaxError
  | TypeError
  | WriteFailure
  | AlreadyExists string
  | NotFound string
  | NilMapPanic
  | Wrap string error

text \<open>
  The files the three components work on, for one home directory:
  \<^verbatim>\<open>~/.claude.json\<close>, \<^verbatim>\<open>~/.claude/settings.json\<close> and the directory
  \<^verbatim>\<open>~/.claude/plugins/cache\<close>. A directory entry of the cache has a name, the answer of
  \<^verbatim>\<open>IsDir\<close>, and what \<^verbatim>\<open>os.ReadDir\<close> gives for it (\<open>None\<close> when it fails); an entry
  one level below has a name, the answer of \<^verbatim>\<open>IsDir\<close> and the file \<^verbatim>\<open>.mcp.json\<close> in it.
  The two flags say whether \<^verbatim>\<open>os.WriteFile\<close> succeeds on the two documents.
\<close>

datatype subentry = SubEntry (subName: string) (subIsDir: bool) (mcpJson: disk_file)

datatype cache_entry = Entry (entryName: string) (entryIsDir: bool) (entryDir: "subentry list option")

record fs =
  claude_json :: disk_file
  settings_json :: disk_file
  plugin_cache :: "cache_entry list option"
  claude_json_writable :: bool
  settings_json_writable :: bool

definition os_ReadFile :: "disk_file \<Rightarrow> error + bytes" where
  "os_ReadFile f = (case f of Absent \<Rightarrow> Inl NotExist | Denied \<Rightarrow> Inl ReadFailure | File b \<Rightarrow> Inr b)"

text \<open>
  \<^verbatim>\<open>json.Unmarshal(data, &v)\<close> for a destination whose decoding of a JSON value is \<open>dec\<close>:
  a syntax error for bytes that are no JSON text, a type error where \<open>dec\<close> refuses the value.
\<close>

definition json_Unmarshal :: "(json \<Rightarrow> 'a option) \<Rightarrow> bytes \<Rightarrow> error + 'a" where
  "json_Unmarshal dec b =
     (case b of
        Garbage \<Rightarrow> Inl SyntaxError
      | Text j \<Rightarrow> (case dec j of None \<Rightarrow> Inl TypeError | Some v \<Rightarrow> Inr v))"

text \<open>
  \<^verbatim>\<open>filepath.Join\<close> of two elements, without the cleaning \<^verbatim>\<open>filepath.Clean\<close> adds: an empty
  first element is dropped, otherwise the two are joined by a slash.
\<close>

definition joinPath :: "string \<Rightarrow> string \<Rightarrow> string" where
  "joinPath a b = (if a = [] then b else a @ ''/'' @ b)"

section \<open>Decoding into the declared Go types\<close>

text \<open>
  The decoders follow \<^verbatim>\<open>encoding/json\<close> for a fresh destination: a member that is absent
  or \<^verbatim>\<open>null\<close> leaves the zero value, a value of another JSON type than the field's is a
  type error (the decoder reports it after finishing, and every caller in this repository
  drops the result on an error, so \<open>None\<close> stands for it), members without a field are
  skipped. Field names are matched exactly; the decoder's fallback to a match that ignores
  letter case is not modelled.
\<close>

definition field :: "(string \<times> json) list \<Rightarrow> string \<Rightarrow> json" where
  "field kvs k = (case map_of kvs k of None \<Rightarrow> JNull | Some v \<Rightarrow> v)"

definition decString :: "json \<Rightarrow> string option" where
  "decString j = (case j of JStr s \<Rightarrow> Some s | JNull \<Rightarrow> Some [] | _ \<Rightarrow> None)"

definition decBool :: "json \<Rightarrow> bool option" where
  "decBool j = (case j of JBool b \<Rightarrow> Some b | JNull \<Rightarrow> Some False | _ \<Rightarrow> None)"

fun decAll :: "(json \<Rightarrow> 'a option) \<Rightarrow> json list \<Rightarrow> 'a list option" where
  "decAll dec [] = Some []"
| "decAll dec (j # js) =
     (case dec j of
        None \<Rightarrow> None
      | Some v \<Rightarrow> (case decAll dec js of None \<Rightarrow> None | Some vs \<Rightarrow> Some (v # vs)))"

fun decMembers :: "(json \<Rightarrow> 'a option) \<Rightarrow> (string \<times> json) list \<Rightarrow> (string \<times> 'a) list option" where
  "decMembers dec [] = Some []"
| "decMembers dec ((k, j) # kvs) =
     (case dec j of
        None \<Rightarrow> None
      | Some v \<Rightarrow> (case decMembers dec kvs of None \<Rightarrow> None | Some vs \<Rightarrow> Some ((k, v) # vs)))"

text \<open>A slice of strings, and a Go map with string keys: one entry for each key.\<close>

definition decStrings :: "json \<Rightarrow> string list option" where
  "decStrings j = (case j of JNull \<Rightarrow> Some [] | JArr js \<Rightarrow> decAll decString js | _ \<Rightarrow> None)"

definition decMap :: "(json \<Rightarrow> 'a option) \<Rightarrow> json \<Rightarrow> (string \<times> 'a) list option" where
  "decMap dec j =
     (case j of
        JNull \<Rightarrow> Some []
      | JObj kvs \<Rightarrow> decMembers dec (AList.clearjunk kvs)
      | _ \<Rightarrow> None)"

text \<open>
  The types of package \<^verbatim>\<open>config\<close> (src/pkg/config/reader.go, lines 196 to 241). A field name that several Go structs share keeps its
  name in the first record and carries a prefix in the others (\<open>cfg\<close>, \<open>proj\<close>, \<open>plugin\<close>,
  \<open>sc\<close>, and below \<open>ent\<close>, \<open>tr\<close>, \<open>pi\<close>), as record fields of one theory must differ.
\<close>

record MCPServer =
  Name :: string
  Type :: string
  URL :: string
  Command :: string
  Args :: "string list"
  Headers :: "(string \<times> string) list"
  Enabled :: bool
  Source :: string

record MCPServerConfig =
  cfgType :: string
  cfgURL :: string
  cfgCommand :: string
  cfgArgs :: "string list"
  cfgHeaders :: "(string \<times> string) list"

record ProjectConfig =
  projMCPServers :: "(string \<times> MCPServerConfig) list"

record ClaudeConfig =
  Projects :: "(string \<times> ProjectConfig) list"

record PluginMCPConfig =
  pluginMCPServers :: "(string \<times> MCPServerConfig) list"

record SettingsConfig =
  scEnabledPlugins :: "(string \<times> bool) list"

definition decMCPServerConfig :: "json \<Rightarrow> MCPServerConfig option" where
  "decMCPServerConfig j =
     (case j of
        JNull \<Rightarrow> Some \<lparr>cfgType = [], cfgURL = [], cfgCommand = [], cfgArgs = [], cfgHeaders = []\<rparr>
      | JObj kvs \<Rightarrow>
          (case (decString (field kvs ''type''), decString (field kvs ''url''),
                 decString (field kvs ''command''), decStrings (field kvs ''args''),
                 decMap decString (field kvs ''headers'')) of
             (Some t, Some u, Some c, Some a, Some h) \<Rightarrow>
               Some \<lparr>cfgType = t, cfgURL = u, cfgCommand = c, cfgArgs = a, cfgHeaders = h\<rparr>
           | _ \<Rightarrow> None)
      | _ \<Rightarrow> None)"

definition decProjectConfig :: "json \<Rightarrow> ProjectConfig option" where
  "decProjectConfig j =
     (case j of
        JNull \<Rightarrow> Some \<lparr>projMCPServers = []\<rparr>
      | JObj kvs \<Rightarrow>
          (case decMap decMCPServerConfig (field kvs ''mcpServers'') of
             Some m \<Rightarrow> Some \<lparr>projMCPServers = m\<rparr>
           | None \<Rightarrow> None)
      | _ \<Rightarrow> None)"

definition decClaudeConfig :: "json \<Rightarrow> ClaudeConfig option" where
  "decClaudeConfig j =
     (case j of
        JNull \<Rightarrow> Some \<lparr>Projects = []\<rparr>
      | JObj kvs \<Rightarrow>
          (case decMap decProjectConfig (field kvs ''projects'') of
             Some m \<Rightarrow> Some \<lparr>Projects = m\<rparr>
           | None \<Rightarrow> None)
      | _ \<Rightarrow> None)"

definition decPluginMCPConfig :: "json \<Rightarrow> PluginMCPConfig option" where
  "decPluginMCPConfig j =
     (case j of
        JNull \<Rightarrow> Some \<lparr>pluginMCPServers = []\<rparr>
      | JObj kvs \<Rightarrow>
          (case decMap decMCPServerConfig (field kvs ''mcpServers'') of
             Some m \<Rightarrow> Some \<lparr>pluginMCPServers = m\<rparr>
           | None \<Rightarrow> None)
      | _ \<Rightarrow> None)"

definition decSettingsConfig :: "json \<Rightarrow> SettingsConfig option" where
  "decSettingsConfig j =
     (case j of
        JNull \<Rightarrow> Some \<lparr>scEnabledPlugins = []\<rparr>
      | JObj kvs \<Rightarrow>
          (case decMap decBool (field kvs ''enabledPlugins'') of
             Some m \<Rightarrow> Some \<lparr>scEnabledPlugins = m\<rparr>
           | None \<Rightarrow> None)
      | _ \<Rightarrow> None)"

section \<open>The aggregating reader of package config\<close>

text \<open>The reader is src/pkg/config/reader.go, lines 1 to 195.\<close>

text \<open>
  The three places that build an \<^verbatim>\<open>MCPServer\<close> from a name and its \<^verbatim>\<open>MCPServerConfig\<close>
  carry the same statements: the fields are copied, \<^verbatim>\<open>Source\<close> is the path of the file,
  \<^verbatim>\<open>Enabled\<close> stays \<^verbatim>\<open>false\<close>, and \<^verbatim>\<open>Type\<close> is \<^verbatim>\<open>cfg.Type\<close> unless that is empty, then
  \<^verbatim>\<open>"command"\<close> when \<^verbatim>\<open>cfg.Command\<close> is not empty, and \<^verbatim>\<open>"http"\<close> otherwise.
\<close>

definition readClaudeJSON :: "string \<Rightarrow> fs \<Rightarrow> error + MCPServer list" where
  "readClaudeJSON homeDir s =
     (let path = joinPath homeDir ''.claude.json'' in
      case os_ReadFile (claude_json s) of
        Inl err \<Rightarrow> Inl err
      | Inr data \<Rightarrow>
          (case json_Unmarshal decClaudeConfig data of
             Inl err \<Rightarrow> Inl err
           | Inr config \<Rightarrow>
               Inr (concat (map (\<lambda>(_, proj).
                      map (\<lambda>(name, cfg).
                        \<lparr>Name = name,
                         Type = (if cfgType cfg \<noteq> [] then cfgType cfg
                                 else if cfgCommand cfg \<noteq> [] then ''command''
                                 else ''http''),
                         URL = cfgURL cfg, Command = cfgCommand cfg, Args = cfgArgs cfg,
                         Headers = cfgHeaders cfg, Enabled = False, Source = path\<rparr>)
                        (projMCPServers proj))
                      (Projects config)))))"

text \<open>
  The body of the inner loop of \<^verbatim>\<open>readPluginConfigs\<close>, for one entry two levels below the
  cache: the file is decoded twice, as a flat map of configurations (where the key
  \<^verbatim>\<open>mcpServers\<close> is skipped) and as an object with a member \<^verbatim>\<open>mcpServers\<close>, and either
  decoding adds its servers when it succeeds.
\<close>

definition readPluginConfigs_subEntry :: "string \<Rightarrow> subentry \<Rightarrow> MCPServer list" where
  "readPluginConfigs_subEntry pluginDir subEntry =
     (if \<not> subIsDir subEntry then []
      else
        let mcpPath = joinPath (joinPath pluginDir (subName subEntry)) ''.mcp.json'' in
        case os_ReadFile (mcpJson subEntry) of
          Inl err \<Rightarrow> []
        | Inr data \<Rightarrow>
            (case json_Unmarshal (decMap decMCPServerConfig) data of
               Inr rawConfig \<Rightarrow>
                 concat (map (\<lambda>(name, cfg).
                   if name = ''mcpServers'' then []
                   else
                     [\<lparr>Name = name,
                       Type = (if cfgType cfg \<noteq> [] then cfgType cfg
                               else if cfgCommand cfg \<noteq> [] then ''command''
                               else ''http''),
                       URL = cfgURL cfg, Command = cfgCommand cfg, Args = cfgArgs cfg,
                       Headers = cfgHeaders cfg, Enabled = False, Source = mcpPath\<rparr>])
                   rawConfig)
             | Inl err \<Rightarrow> [])
            @
            (case json_Unmarshal decPluginMCPConfig data of
               Inr pluginConfig \<Rightarrow>
                 if length (pluginMCPServers pluginConfig) > 0 then
                   map (\<lambda>(name, cfg).
                     \<lparr>Name = name,
                      Type = (if cfgType cfg \<noteq> [] then cfgType cfg
                              else if cfgCommand cfg \<noteq> [] then ''command''
                              else ''http''),
                      URL = cfgURL cfg, Command = cfgCommand cfg, Args = cfgArgs cfg,
                      Headers = cfgHeaders cfg, Enabled = False, Source = mcpPath\<rparr>)
                     (pluginMCPServers pluginConfig)
                 else []
             | Inl err \<Rightarrow> []))"

definition readPluginConfigs_entry :: "string \<Rightarrow> cache_entry \<Rightarrow> MCPServer list" where
  "readPluginConfigs_entry cacheDir entry =
     (if \<not> entryIsDir entry then []
      else
        let pluginDir = joinPath cacheDir (entryName entry) in
        case entryDir entry of
          None \<Rightarrow> []
        | Some subEntries \<Rightarrow> concat (map (readPluginConfigs_subEntry pluginDir) subEntries))"

definition readPluginConfigs :: "string \<Rightarrow> fs \<Rightarrow> error + MCPServer list" where
  "readPluginConfigs homeDir s =
     (let cacheDir = joinPath (joinPath (joinPath homeDir ''.claude'') ''plugins'') ''cache'' in
      case plugin_cache s of
        None \<Rightarrow> Inl ReadFailure
      | Some entries \<Rightarrow> Inr (concat (map (readPluginConfigs_entry cacheDir) entries)))"

definition readSettings :: "fs \<Rightarrow> error + (string \<times> bool) list" where
  "readSettings s =
     (case os_ReadFile (settings_json s) of
        Inl err \<Rightarrow> Inl err
      | Inr data \<Rightarrow>
          (case json_Unmarshal decSettingsConfig data of
             Inl err \<Rightarrow> Inl err
           | Inr config \<Rightarrow> Inr (scEnabledPlugins config)))"

text \<open>
  \<^verbatim>\<open>ListMCPServers\<close>: the servers of \<^verbatim>\<open>~/.claude.json\<close> when that read succeeded, then the
  servers of the plugin cache when that read succeeded, each with \<^verbatim>\<open>Enabled\<close> replaced by
  the entry of its name in the settings, when there is one. The error of
  \<^verbatim>\<open>readSettings\<close> is discarded, which leaves a nil map. The returned error is always nil.
\<close>

definition ListMCPServers :: "string \<Rightarrow> fs \<Rightarrow> error + MCPServer list" where
  "ListMCPServers homeDir s =
     (let servers = [];
          servers = (case readClaudeJSON homeDir s of
                       Inr claudeServers \<Rightarrow> servers @ claudeServers
                     | Inl err \<Rightarrow> servers);
          servers = (case readPluginConfigs homeDir s of
                       Inr pluginServers \<Rightarrow> servers @ pluginServers
                     | Inl err \<Rightarrow> servers);
          enabledPlugins = (case readSettings s of Inr m \<Rightarrow> m | Inl err \<Rightarrow> [])
      in Inr (map (\<lambda>server.
                case map_of enabledPlugins (Name server) of
                  Some enabled \<Rightarrow> server\<lparr>Enabled := enabled\<rparr>
                | None \<Rightarrow> server)
              servers))"

section \<open>The writer of package config\<close>

text \<open>The writer is src/pkg/config/reader.go, lines 353 to 636.\<close>

text \<open>
  The writer decodes a document into \<^verbatim>\<open>map[string]interface{}\<close>: an object gives a map,
  \<^verbatim>\<open>null\<close> leaves the map nil, any other value is a type error. Reading a key of a nil map
  finds nothing; assigning to one panics.
\<close>

datatype gomap = NilMap | GoMap "(string \<times> json) list"

definition decGenericMap :: "json \<Rightarrow> gomap option" where
  "decGenericMap j = (case j of JNull \<Rightarrow> Some NilMap | JObj kvs \<Rightarrow> Some (GoMap kvs) | _ \<Rightarrow> None)"

definition index :: "gomap \<Rightarrow> string \<Rightarrow> json option" where
  "index m k = (case m of NilMap \<Rightarrow> None | GoMap kvs \<Rightarrow> map_of kvs k)"

text \<open>The type assertion \<^verbatim>\<open>v.(map[string]interface{})\<close> on the result of an index expression.\<close>

definition assertMap :: "json option \<Rightarrow> (string \<times> json) list option" where
  "assertMap v = (case v of Some (JObj m) \<Rightarrow> Some m | _ \<Rightarrow> None)"

text \<open>
  \<^verbatim>\<open>os.WriteFile\<close> on the two documents. \<^verbatim>\<open>json.MarshalIndent\<close> of a tree that was decoded
  from JSON, with strings, booleans and maps of them added, has no failing case, so its
  error branch does not appear.
\<close>

definition write_settings_json :: "fs \<Rightarrow> json \<Rightarrow> error option \<times> fs" where
  "write_settings_json s j =
     (if settings_json_writable s then (None, s\<lparr>settings_json := File (Text j)\<rparr>)
      else (Some WriteFailure, s))"

definition write_claude_json :: "fs \<Rightarrow> json \<Rightarrow> error option \<times> fs" where
  "write_claude_json s j =
     (if claude_json_writable s then (None, s\<lparr>claude_json := File (Text j)\<rparr>)
      else (Some WriteFailure, s))"

definition wrap :: "string \<Rightarrow> error option \<times> fs \<Rightarrow> error option \<times> fs" where
  "wrap prefix r = (case r of (None, s) \<Rightarrow> (None, s) | (Some err, s) \<Rightarrow> (Some (Wrap prefix err), s))"

definition SetPluginEnabled :: "fs \<Rightarrow> string \<Rightarrow> bool \<Rightarrow> error option \<times> fs" where
  "SetPluginEnabled s pluginID enabled =
     (case os_ReadFile (settings_json s) of
        Inl err \<Rightarrow> (Some (Wrap ''failed to read settings'' err), s)
      | Inr data \<Rightarrow>
          (case json_Unmarshal decGenericMap data of
             Inl err \<Rightarrow> (Some (Wrap ''failed to parse settings'' err), s)
           | Inr settings \<Rightarrow>
               (let enabledPlugins =
                      (case assertMap (index settings ''enabledPlugins'') of
                         Some m \<Rightarrow> m
                       | None \<Rightarrow> []);
                    enabledPlugins = AList.update pluginID (JBool enabled) enabledPlugins
                in case settings of
                     NilMap \<Rightarrow> (Some NilMapPanic, s)
                   | GoMap kvs \<Rightarrow>
                       wrap ''failed to write settings''
                         (write_settings_json s
                            (JObj (AList.update ''enabledPlugins'' (JObj enabledPlugins) kvs))))))"

record MCPServerEntry =
  entType :: string
  entCommand :: string
  entArgs :: "string list"
  entURL :: string
  entHeaders :: "(string \<times> string) list"
  entEnabled :: bool

text \<open>
  The statements of \<^verbatim>\<open>AddMCPServer\<close> that fill the map \<^verbatim>\<open>serverConfig\<close> of the new
  entry: a field of the entry is written only when it is not empty.
\<close>

definition AddMCPServer_serverConfig :: "MCPServerEntry \<Rightarrow> (string \<times> json) list" where
  "AddMCPServer_serverConfig entry =
     (let serverConfig = [];
          serverConfig =
            (if entType entry \<noteq> []
             then AList.update ''type'' (JStr (entType entry)) serverConfig
             else serverConfig);
          serverConfig =
            (if entCommand entry \<noteq> []
             then AList.update ''command'' (JStr (entCommand entry)) serverConfig
             else serverConfig);
          serverConfig =
            (if length (entArgs entry) > 0
             then AList.update ''args'' (JArr (map JStr (entArgs entry))) serverConfig
             else serverConfig);
          serverConfig =
            (if entURL entry \<noteq> []
             then AList.update ''url'' (JStr (entURL entry)) serverConfig
             else serverConfig);
          serverConfig =
            (if length (entHeaders entry) > 0
             then AList.update ''headers''
                    (JObj (map (\<lambda>(k, v). (k, JStr v)) (entHeaders entry))) serverConfig
             else serverConfig);
          serverConfig =
            (if entEnabled entry
             then AList.update ''enabled'' (JBool (entEnabled entry)) serverConfig
             else serverConfig)
      in serverConfig)"

definition AddMCPServer :: "fs \<Rightarrow> string \<Rightarrow> MCPServerEntry \<Rightarrow> error option \<times> fs" where
  "AddMCPServer s name entry =
     (case os_ReadFile (claude_json s) of
        Inl err \<Rightarrow> (Some (Wrap ''failed to read claude.json'' err), s)
      | Inr data \<Rightarrow>
          (case json_Unmarshal decGenericMap data of
             Inl err \<Rightarrow> (Some (Wrap ''failed to parse claude.json'' err), s)
           | Inr config \<Rightarrow>
               (let mcpServers =
                      (case assertMap (index config ''mcpServers'') of
                         Some m \<Rightarrow> m
                       | None \<Rightarrow> [])
                in if map_of mcpServers name \<noteq> None then (Some (AlreadyExists name), s)
                   else
                     (let serverConfig = AddMCPServer_serverConfig entry;
                          mcpServers = AList.update name (JObj serverConfig) mcpServers
                      in (case config of
                            NilMap \<Rightarrow> (Some NilMapPanic, s)
                          | GoMap kvs \<Rightarrow>
                              wrap ''failed to write claude.json''
                                (write_claude_json s
                                   (JObj (AList.update ''mcpServers'' (JObj mcpServers) kvs))))))))"

definition RemoveMCPServer :: "fs \<Rightarrow> string \<Rightarrow> error option \<times> fs" where
  "RemoveMCPServer s name =
     (case os_ReadFile (claude_json s) of
        Inl err \<Rightarrow> (Some (Wrap ''failed to read claude.json'' err), s)
      | Inr data \<Rightarrow>
          (case json_Unmarshal decGenericMap data of
             Inl err \<Rightarrow> (Some (Wrap ''failed to parse claude.json'' err), s)
           | Inr config \<Rightarrow>
               (case assertMap (index config ''mcpServers'') of
                  None \<Rightarrow> (Some (NotFound name), s)
                | Some mcpServers \<Rightarrow>
                    if map_of mcpServers name = None then (Some (NotFound name), s)
                    else
                      (let mcpServers = AList.delete name mcpServers
                       in (case config of
                             NilMap \<Rightarrow> (Some NilMapPanic, s)
                           | GoMap kvs \<Rightarrow>
                               wrap ''failed to write claude.json''
                                 (write_claude_json s
                                    (JObj (AList.update ''mcpServers'' (JObj mcpServers) kvs))))))))"

section \<open>The settings repository of package claudeconfig\<close>

text \<open>
  The settings repository is src/pkg/infrastructure/claudeconfig/settings_test.go, lines
  193 to 355, after the tests.
\<close>

record Permissions =
  Allow :: "string list"
  Deny :: "string list"
  DefaultMode :: string

text \<open>
  \<^verbatim>\<open>Settings\<close>. \<^verbatim>\<open>ReadSettings\<close> replaces a nil \<^verbatim>\<open>EnabledPlugins\<close> by an empty map before it
  returns, and \<^verbatim>\<open>WriteSettings\<close> is only called with what \<^verbatim>\<open>ReadSettings\<close> returned, so the
  nil map of that field is not represented. \<^verbatim>\<open>Extra\<close> is tagged \<^verbatim>\<open>json:"-"\<close>: it is neither
  decoded nor encoded.
\<close>

record Settings =
  Schema :: string
  Permissions :: "Permissions option"
  Hooks :: "(string \<times> json) list"
  EnabledPlugins :: "(string \<times> bool) list"
  Extra :: "(string \<times> json) list"

definition decPermissions :: "json \<Rightarrow> Permissions option option" where
  "decPermissions j =
     (case j of
        JNull \<Rightarrow> Some None
      | JObj kvs \<Rightarrow>
          (case (decStrings (field kvs ''allow''), decStrings (field kvs ''deny''),
                 decString (field kvs ''defaultMode'')) of
             (Some a, Some d, Some m) \<Rightarrow> Some (Some \<lparr>Allow = a, Deny = d, DefaultMode = m\<rparr>)
           | _ \<Rightarrow> None)
      | _ \<Rightarrow> None)"

definition decSettings :: "json \<Rightarrow> Settings option" where
  "decSettings j =
     (case j of
        JNull \<Rightarrow> Some \<lparr>Schema = [], Permissions = None, Hooks = [], EnabledPlugins = [], Extra = []\<rparr>
      | JObj kvs \<Rightarrow>
          (case (decString (field kvs ''$schema''), decPermissions (field kvs ''permissions''),
                 decMap Some (field kvs ''hooks''), decMap decBool (field kvs ''enabledPlugins'')) of
             (Some sc, Some p, Some h, Some e) \<Rightarrow>
               Some \<lparr>Schema = sc, Permissions = p, Hooks = h, EnabledPlugins = e, Extra = []\<rparr>
           | _ \<Rightarrow> None)
      | _ \<Rightarrow> None)"

text \<open>
  \<^verbatim>\<open>json.MarshalIndent\<close> of a \<^verbatim>\<open>map[string]bool\<close>, of \<^verbatim>\<open>Permissions\<close> and of \<^verbatim>\<open>Settings\<close>,
  whose fields are all tagged \<^verbatim>\<open>omitempty\<close>.
\<close>

definition encBoolMap :: "(string \<times> bool) list \<Rightarrow> json" where
  "encBoolMap m = JObj (AList.map_ran (\<lambda>k b. JBool b) m)"

definition encPermissions :: "Permissions \<Rightarrow> json" where
  "encPermissions p =
     JObj ((if Allow p \<noteq> [] then [(''allow'', JArr (map JStr (Allow p)))] else []) @
           (if Deny p \<noteq> [] then [(''deny'', JArr (map JStr (Deny p)))] else []) @
           (if DefaultMode p \<noteq> [] then [(''defaultMode'', JStr (DefaultMode p))] else []))"

definition encSettings :: "Settings \<Rightarrow> json" where
  "encSettings settings =
     JObj ((if Schema settings \<noteq> [] then [(''$schema'', JStr (Schema settings))] else []) @
           (case Permissions settings of
              None \<Rightarrow> []
            | Some p \<Rightarrow> [(''permissions'', encPermissions p)]) @
           (if Hooks settings \<noteq> [] then [(''hooks'', JObj (Hooks settings))] else []) @
           (if EnabledPlugins settings \<noteq> []
            then [(''enabledPlugins'', encBoolMap (EnabledPlugins settings))] else []))"

definition ReadSettings :: "fs \<Rightarrow> error + Settings" where
  "ReadSettings s =
     (case os_ReadFile (settings_json s) of
        Inl err \<Rightarrow>
          if err = NotExist
          then Inr \<lparr>Schema = [], Permissions = None, Hooks = [], EnabledPlugins = [], Extra = []\<rparr>
          else Inl (Wrap ''read settings'' err)
      | Inr data \<Rightarrow>
          (case json_Unmarshal decSettings data of
             Inl err \<Rightarrow> Inl (Wrap ''parse settings'' err)
           | Inr settings \<Rightarrow> Inr settings))"

text \<open>
  \<^verbatim>\<open>WriteSettings\<close> reads the file again. When it is there and decodes into a generic map,
  only the key \<^verbatim>\<open>enabledPlugins\<close> of that map is assigned and the map is written back;
  in every other case the \<^verbatim>\<open>Settings\<close> value itself is written as a fresh document.
\<close>

definition WriteSettings :: "fs \<Rightarrow> Settings \<Rightarrow> error option \<times> fs" where
  "WriteSettings s settings =
     (let fresh = write_settings_json s (encSettings settings) in
      case os_ReadFile (settings_json s) of
        Inr existingData \<Rightarrow>
          (case json_Unmarshal decGenericMap existingData of
             Inr existing \<Rightarrow>
               (case existing of
                  NilMap \<Rightarrow> (Some NilMapPanic, s)
                | GoMap kvs \<Rightarrow>
                    write_settings_json s
                      (JObj (AList.update ''enabledPlugins''
                               (encBoolMap (EnabledPlugins settings)) kvs)))
           | Inl err \<Rightarrow> fresh)
      | Inl err \<Rightarrow> fresh)"

definition ListEnabledPlugins :: "fs \<Rightarrow> error + string list" where
  "ListEnabledPlugins s =
     (case ReadSettings s of
        Inl err \<Rightarrow> Inl err
      | Inr settings \<Rightarrow> Inr (map fst (filter snd (EnabledPlugins settings))))"

definition ListAllPlugins :: "fs \<Rightarrow> error + (string \<times> bool) list" where
  "ListAllPlugins s =
     (case ReadSettings s of
        Inl err \<Rightarrow> Inl err
      | Inr settings \<Rightarrow> Inr (EnabledPlugins settings))"

definition EnablePlugin :: "fs \<Rightarrow> string \<Rightarrow> error option \<times> fs" where
  "EnablePlugin s pluginID =
     (case ReadSettings s of
        Inl err \<Rightarrow> (Some err, s)
      | Inr settings \<Rightarrow>
          WriteSettings s
            (settings\<lparr>EnabledPlugins := AList.update pluginID True (EnabledPlugins settings)\<rparr>))"

definition DisablePlugin :: "fs \<Rightarrow> string \<Rightarrow> error option \<times> fs" where
  "DisablePlugin s pluginID =
     (case ReadSettings s of
        Inl err \<Rightarrow> (Some err, s)
      | Inr settings \<Rightarrow>
          WriteSettings s
            (settings\<lparr>EnabledPlugins := AList.update pluginID False (EnabledPlugins settings)\<rparr>))"

definition IsPluginEnabled :: "fs \<Rightarrow> string \<Rightarrow> error + bool" where
  "IsPluginEnabled s pluginID =
     (case ReadSettings s of
        Inl err \<Rightarrow> Inl err
      | Inr settings \<Rightarrow>
          (case map_of (EnabledPlugins settings) pluginID of
             None \<Rightarrow> Inr False
           | Some enabled \<Rightarrow> Inr enabled))"

section \<open>The application layer\<close>

text \<open>
  The port \<^verbatim>\<open>output.PluginRepository\<close> is an interface; a value of it is a record of its
  methods over the state \<open>'s\<close> they work on. \<open>NewPluginRepository\<close> is the implementation
  of package \<^verbatim>\<open>repository\<close> (src/unnamed/part_002), which hands every method to the
  settings repository. The use cases are src/pkg/application/usecase/plugin/toggle.go and
  list.go.
\<close>

record 's PluginRepository =
  ListAll :: "'s \<Rightarrow> error + (string \<times> bool) list"
  ListEnabled :: "'s \<Rightarrow> error + string list"
  IsEnabled :: "'s \<Rightarrow> string \<Rightarrow> error + bool"
  Enable :: "'s \<Rightarrow> string \<Rightarrow> error option \<times> 's"
  Disable :: "'s \<Rightarrow> string \<Rightarrow> error option \<times> 's"

definition NewPluginRepository :: "fs PluginRepository" where
  "NewPluginRepository =
     \<lparr>ListAll = ListAllPlugins, ListEnabled = ListEnabledPlugins, IsEnabled = IsPluginEnabled,
      Enable = EnablePlugin, Disable = DisablePlugin\<rparr>"

record ToggleResult =
  PluginID :: string
  trEnabled :: bool
  WasAlready :: bool
  Message :: string

text \<open>\<^verbatim>\<open>fmt.Sprintf("Plugin '%s' <rest>", pluginID)\<close>.\<close>

definition pluginMessage :: "string \<Rightarrow> string \<Rightarrow> string" where
  "pluginMessage pluginID rest = ''Plugin '' @ [CHR 0x27] @ pluginID @ [CHR 0x27] @ rest"



definition ToggleUseCase_Status :: "'s PluginRepository \<Rightarrow> 's \<Rightarrow> string \<Rightarrow> error + ToggleResult" where
  "ToggleUseCase_Status repo s pluginID =
     (case IsEnabled repo s pluginID of
        Inl err \<Rightarrow> Inl (Wrap ''check plugin status'' err)
      | Inr enabled \<Rightarrow>
          (let status = (if enabled then ''enabled'' else ''disabled'')
           in Inr \<lparr>PluginID = pluginID, trEnabled = enabled, WasAlready = False,
                   Message = pluginMessage pluginID ('' is '' @ status)\<rparr>))"

record PluginInfo =
  ID :: string
  piName :: string
  Publisher :: string
  piEnabled :: bool

text \<open>
  \<^verbatim>\<open>parsePluginID\<close> (list.go) walks the identifier from its last byte down to its first
  and cuts at the first \<^verbatim>\<open>@\<close> it meets:
  \<^verbatim>\<open>for i := len(id) - 1; i >= 0; i-- { if id[i] == '@' { return id[:i], id[i+1:] } }\<close>,
  and returns \<^verbatim>\<open>id, ""\<close> when the loop ends. The counter of \<open>parsePluginID_loop\<close> is the
  Go index plus one, so that the loop ends at \<open>0\<close>; a Go string is a byte sequence, as a
  HOL \<open>string\<close> is.
\<close>

fun parsePluginID_loop :: "string \<Rightarrow> nat \<Rightarrow> string \<times> string" where
  "parsePluginID_loop pid 0 = (pid, [])"
| "parsePluginID_loop pid (Suc i) =
     (if pid ! i = CHR ''@'' then (take i pid, drop (Suc i) pid)
      else parsePluginID_loop pid i)"

definition parsePluginID :: "string \<Rightarrow> string \<times> string" where
  "parsePluginID pid = parsePluginID_loop pid (length pid)"

text \<open>
  \<^verbatim>\<open>Execute\<close> ranges over the map of plugins, keeps an entry unless only enabled ones are
  asked for and it is disabled, and sorts the result with \<^verbatim>\<open>sort.Slice\<close> on
  \<^verbatim>\<open>result[i].ID < result[j].ID\<close>, the byte order of Go strings. The identifiers are the
  keys of a map, so no two entries compare equal and every sorting algorithm returns the
  list that \<open>sort_key\<close> returns.
\<close>

definition ListUseCase_Execute :: "'s PluginRepository \<Rightarrow> 's \<Rightarrow> bool \<Rightarrow> error + PluginInfo list" where
  "ListUseCase_Execute repo s enabledOnly =
     (case ListAll repo s of
        Inl err \<Rightarrow> Inl err
      | Inr plugins \<Rightarrow>
          Inr (sort_key ID
                 (concat (map (\<lambda>(pid, enabled).
                    if enabledOnly \<and> \<not> enabled then []
                    else
                      (case parsePluginID pid of
                         (name, publisher) \<Rightarrow>
                           [\<lparr>ID = pid, piName = name, Publisher = publisher, piEnabled = enabled\<rparr>]))
                    plugins))))"

section \<open>Notions the properties are stated with\<close>

text \<open>
  The overlay of the settings on one server, as the last loop of \<^verbatim>\<open>ListMCPServers\<close> applies
  it, and the map that loop reads: the enabled map of the settings, empty when the settings
  cannot be read.
\<close>

definition overlay :: "(string \<times> bool) list \<Rightarrow> MCPServer \<Rightarrow> MCPServer" where
  "overlay enabledPlugins server =
     (case map_of enabledPlugins (Name server) of
        Some enabled \<Rightarrow> server\<lparr>Enabled := enabled\<rparr>
      | None \<Rightarrow> server)"

definition enabledMap :: "fs \<Rightarrow> (string \<times> bool) list" where
  "enabledMap s = (case readSettings s of Inr m \<Rightarrow> m | Inl err \<Rightarrow> [])"

text \<open>
  The rule of the specification for the type of a server: the type of the origin entry when
  it is there and not empty, else \<^verbatim>\<open>command\<close> when the entry has a non-empty command, else
  \<^verbatim>\<open>http\<close>.
\<close>

definition resolveType :: "MCPServerConfig \<Rightarrow> string" where
  "resolveType cfg =
     (if cfgType cfg \<noteq> [] then cfgType cfg
      else if cfgCommand cfg \<noteq> [] then ''command'' else ''http'')"

text \<open>
  The entries the origin documents declare, in the order the sources are read: the servers
  of every project of \<^verbatim>\<open>~/.claude.json\<close>, then, for every directory two levels below the
  plugin cache, the entries of its descriptor in the flat shape (without the key
  \<^verbatim>\<open>mcpServers\<close>) and in the wrapped shape. A document that cannot be read or decoded
  declares nothing.
\<close>

definition claudeEntries :: "fs \<Rightarrow> (string \<times> MCPServerConfig) list" where
  "claudeEntries s =
     (case claude_json s of
        File (Text j) \<Rightarrow>
          (case decClaudeConfig j of
             Some config \<Rightarrow> concat (map (\<lambda>(_, proj). projMCPServers proj) (Projects config))
           | None \<Rightarrow> [])
      | _ \<Rightarrow> [])"

definition descriptorEntries :: "disk_file \<Rightarrow> (string \<times> MCPServerConfig) list" where
  "descriptorEntries f =
     (case f of
        File (Text j) \<Rightarrow>
          (case decMap decMCPServerConfig j of
             Some flat \<Rightarrow> filter (\<lambda>(name, _). name \<noteq> ''mcpServers'') flat
           | None \<Rightarrow> []) @
          (case decPluginMCPConfig j of
             Some wrapped \<Rightarrow> pluginMCPServers wrapped
           | None \<Rightarrow> [])
      | _ \<Rightarrow> [])"

definition pluginEntries :: "fs \<Rightarrow> (string \<times> MCPServerConfig) list" where
  "pluginEntries s =
     (case plugin_cache s of
        None \<Rightarrow> []
      | Some entries \<Rightarrow>
          concat (map (\<lambda>entry.
            if entryIsDir entry then
              (case entryDir entry of
                 None \<Rightarrow> []
               | Some subEntries \<Rightarrow>
                   concat (map (\<lambda>subEntry.
                     if subIsDir subEntry then descriptorEntries (mcpJson subEntry) else [])
                     subEntries))
            else [])
            entries))"

definition nameType :: "MCPServer \<Rightarrow> string \<times> string" where
  "nameType server = (Name server, Type server)"

text \<open>
  The managed map \<^verbatim>\<open>mcpServers\<close> of the Global Server Store, when the store is a document
  that has one; whether a name is present in it; and whether the store is a document the
  writer can decode (an object or \<^verbatim>\<open>null\<close>).
\<close>

definition managedServers :: "fs \<Rightarrow> (string \<times> json) list option" where
  "managedServers s =
     (case claude_json s of
        File (Text (JObj kvs)) \<Rightarrow>
          (case map_of kvs ''mcpServers'' of Some (JObj m) \<Rightarrow> Some m | _ \<Rightarrow> None)
      | _ \<Rightarrow> None)"

definition serverPresent :: "fs \<Rightarrow> string \<Rightarrow> bool" where
  "serverPresent s name =
     (case managedServers s of None \<Rightarrow> False | Some m \<Rightarrow> map_of m name \<noteq> None)"

definition isDocument :: "disk_file \<Rightarrow> bool" where
  "isDocument f =
     (case f of File (Text JNull) \<Rightarrow> True | File (Text (JObj kvs)) \<Rightarrow> True | _ \<Rightarrow> False)"


section \<open>Example states\<close>


definition fs_no_settings :: fs where
  "fs_no_settings =
     \<lparr>claude_json = Absent, settings_json = Absent, plugin_cache = None,
      claude_json_writable = True, settings_json_writable = True\<rparr>"



text \<open>
  One server \<^verbatim>\<open>zeta\<close> in a project of \<^verbatim>\<open>~/.claude.json\<close> and one server \<^verbatim>\<open>alpha\<close> in
  the descriptor of a cached plugin; and the same cache without \<^verbatim>\<open>~/.claude.json\<close>.
\<close>

definition fs_two_sources :: fs where
  "fs_two_sources =
     \<lparr>claude_json = File (Text (JObj [(''projects'', JObj [(''/work'', JObj [(''mcpServers'',
         JObj [(''zeta'', JObj [(''command'', JStr ''npx'')])])])])])),
      settings_json = Absent,
      plugin_cache = Some [Entry ''publisher'' True (Some [SubEntry ''plugin'' True
         (File (Text (JObj [(''alpha'', JObj [(''url'', JStr ''http://localhost'')])])))])],
      claude_json_writable = True, settings_json_writable = True\<rparr>"

definition fs_plugins_only :: fs where
  "fs_plugins_only = fs_two_sources\<lparr>claude_json := Absent\<rparr>"

text \<open>
  A Global Server Store with an unmanaged field and an empty managed map, the same store
  with a server \<^verbatim>\<open>x\<close>, and the entry that adds it.
\<close>

definition fs_empty_store :: fs where
  "fs_empty_store =
     \<lparr>claude_json = File (Text (JObj [(''numStartups'', JNum 3), (''mcpServers'', JObj [])])),
      settings_json = Absent, plugin_cache = None,
      claude_json_writable = True, settings_json_writable = True\<rparr>"

definition fs_store_x :: fs where
  "fs_store_x =
     fs_empty_store\<lparr>claude_json := File (Text (JObj
        [(''numStartups'', JNum 3),
         (''mcpServers'', JObj [(''x'', JObj [(''command'', JStr ''npx''),
            (''args'', JArr [JStr ''-y'', JStr ''@pkg/mcp''])])])]))\<rparr>"

definition entry_x :: MCPServerEntry where
  "entry_x =
     \<lparr>entType = [], entCommand = ''npx'', entArgs = [''-y'', ''@pkg/mcp''], entURL = [],
      entHeaders = [], entEnabled = False\<rparr>"

text \<open>A ledger with three plugins, listed out of order.\<close>

definition fs_three_plugins :: fs where
  "fs_three_plugins =
     \<lparr>claude_json = Absent,
      settings_json = File (Text (JObj [(''enabledPlugins'',
        JObj [(''serena@pub'', JBool False), (''context7@pub'', JBool True),
              (''greptile@pub'', JBool True)])])),
      plugin_cache = None, claude_json_writable = True, settings_json_writable = True\<rparr>"

section \<open>Lemmas on the aggregating reader\<close>

lemma ListMCPServers_eq:
  "ListMCPServers h s =
     Inr (map (overlay (enabledMap s))
            ((case readClaudeJSON h s of Inr cs \<Rightarrow> cs | Inl e \<Rightarrow> []) @
             (case readPluginConfigs h s of Inr ps \<Rightarrow> ps | Inl e \<Rightarrow> [])))"
  by (simp add: ListMCPServers_def enabledMap_def overlay_def Let_def split: sum.splits)

lemma nameType_overlay [simp]: "nameType (overlay m server) = nameType server"
  by (simp add: nameType_def overlay_def split: option.splits)

lemma Name_overlay [simp]: "Name (overlay m server) = Name server"
  by (simp add: overlay_def split: option.splits)

lemma readClaudeJSON_entries:
  "map nameType (case readClaudeJSON h s of Inr cs \<Rightarrow> cs | Inl e \<Rightarrow> []) =
   map (\<lambda>(name, cfg). (name, resolveType cfg)) (claudeEntries s)"
  by (simp add: readClaudeJSON_def claudeEntries_def os_ReadFile_def json_Unmarshal_def Let_def
      map_concat nameType_def resolveType_def comp_def case_prod_unfold
      split: disk_file.splits bytes.splits option.splits)

lemma map_filter_concat:
  "concat (map (\<lambda>x. if P x then [] else [f x]) xs) = map f (filter (\<lambda>x. \<not> P x) xs)"
  by (induction xs) auto

lemma subEntry_entries:
  "map nameType (readPluginConfigs_subEntry d sub) =
   map (\<lambda>(name, cfg). (name, resolveType cfg))
     (if subIsDir sub then descriptorEntries (mcpJson sub) else [])"
  by (simp add: readPluginConfigs_subEntry_def descriptorEntries_def os_ReadFile_def json_Unmarshal_def Let_def
      map_filter_concat nameType_def resolveType_def comp_def case_prod_unfold
      split: disk_file.splits bytes.splits option.splits)

lemma entry_entries:
  "map nameType (readPluginConfigs_entry d entry) =
   map (\<lambda>(name, cfg). (name, resolveType cfg))
     (if entryIsDir entry then
        (case entryDir entry of
           None \<Rightarrow> []
         | Some subEntries \<Rightarrow>
             concat (map (\<lambda>subEntry.
               if subIsDir subEntry then descriptorEntries (mcpJson subEntry) else [])
               subEntries))
      else [])"
  by (simp add: readPluginConfigs_entry_def Let_def map_concat comp_def subEntry_entries
      split: option.splits)

lemma readPluginConfigs_entries:
  "map nameType (case readPluginConfigs h s of Inr ps \<Rightarrow> ps | Inl e \<Rightarrow> []) =
   map (\<lambda>(name, cfg). (name, resolveType cfg)) (pluginEntries s)"
  by (simp add: readPluginConfigs_def pluginEntries_def Let_def map_concat comp_def entry_entries
      split: option.splits)


section \<open>Lemmas on the documents\<close>

lemmas io_defs = os_ReadFile_def json_Unmarshal_def decGenericMap_def index_def assertMap_def
  write_settings_json_def write_claude_json_def wrap_def









section \<open>Lemmas on the writer\<close>

lemma AddMCPServer_exists_iff:
  "fst (AddMCPServer s name entry) = Some (AlreadyExists n) \<longleftrightarrow> n = name \<and> serverPresent s name"
  by (auto simp add: AddMCPServer_def managedServers_def serverPresent_def io_defs Let_def
      split: disk_file.splits bytes.splits json.splits option.splits if_splits)

lemma AddMCPServer_success:
  "AddMCPServer s name entry = (None, s') \<Longrightarrow> serverPresent s' name"
  by (auto simp add: AddMCPServer_def managedServers_def serverPresent_def io_defs Let_def update_conv'
      split: disk_file.splits bytes.splits json.splits option.splits if_splits)

lemma AddMCPServer_state:
  "fst (AddMCPServer s name entry) \<noteq> None \<Longrightarrow> snd (AddMCPServer s name entry) = s"
  by (auto simp add: AddMCPServer_def io_defs Let_def
      split: disk_file.splits bytes.splits json.splits option.splits if_splits)

lemma RemoveMCPServer_absent:
  "isDocument (claude_json s) \<Longrightarrow> \<not> serverPresent s name \<Longrightarrow>
   RemoveMCPServer s name = (Some (NotFound name), s)"
  by (auto simp add: RemoveMCPServer_def managedServers_def serverPresent_def isDocument_def io_defs Let_def
      split: disk_file.splits bytes.splits json.splits option.splits if_splits)

lemma RemoveMCPServer_success:
  "RemoveMCPServer s name = (None, s') \<Longrightarrow> isDocument (claude_json s') \<and> \<not> serverPresent s' name"
  by (auto simp add: RemoveMCPServer_def managedServers_def serverPresent_def isDocument_def io_defs Let_def update_conv' delete_conv'
      split: disk_file.splits bytes.splits json.splits option.splits if_splits)

section \<open>Lemmas on the toggle\<close>








section \<open>The identifier parser\<close>

lemma parsePluginID_loop_no_at:
  "n \<le> length s \<Longrightarrow> CHR ''@'' \<notin> set (take n s) \<Longrightarrow> parsePluginID_loop s n = (s, [])"
proof (induction n)
  case 0
  show ?case by simp
next
  case (Suc n)
  from Suc.prems have lt: "n < length s" by simp
  then have "take (Suc n) s = take n s @ [s ! n]"
    by (simp add: take_Suc_conv_app_nth)
  with Suc.prems have "s ! n \<noteq> CHR ''@''" and "CHR ''@'' \<notin> set (take n s)"
    by auto
  with Suc.IH lt show ?case by simp
qed

lemma parsePluginID_loop_split:
  "CHR ''@'' \<notin> set q \<Longrightarrow> n \<le> length q \<Longrightarrow>
   parsePluginID_loop (p @ CHR ''@'' # q) (Suc (length p + n)) = (p, q)"
proof (induction n)
  case 0
  show ?case by simp
next
  case (Suc n)
  from Suc.prems have lt: "n < length q" by simp
  have "(p @ CHR ''@'' # q) ! (Suc (length p + n)) = q ! n"
    by (simp add: nth_append)
  moreover from Suc.prems(1) lt have "q ! n \<noteq> CHR ''@''"
    by (metis nth_mem)
  ultimately show ?case using Suc.IH Suc.prems(1) lt by simp
qed

text \<open>
  C9. \<^verbatim>\<open>parsePluginID\<close> splits at the last \<^verbatim>\<open>@\<close>: a string without \<^verbatim>\<open>@\<close> comes back whole
  with an empty publisher; a string \<open>p @ q\<close> whose part \<open>q\<close> after the separator holds no
  further \<^verbatim>\<open>@\<close> gives \<open>(p, q)\<close>, whatever \<open>p\<close> contains; and
  \<^verbatim>\<open>multi@at@signs\<close> gives \<^verbatim>\<open>multi@at\<close> and \<^verbatim>\<open>signs\<close>.
\<close>

theorem parsePluginID_splits_at_last_at:
  "(CHR ''@'' \<notin> set s \<longrightarrow> parsePluginID s = (s, [])) \<and>
   (CHR ''@'' \<notin> set q \<longrightarrow> parsePluginID (p @ CHR ''@'' # q) = (p, q)) \<and>
   parsePluginID ''multi@at@signs'' = (''multi@at'', ''signs'')"
proof (intro conjI impI)
  assume "CHR ''@'' \<notin> set s"
  then show "parsePluginID s = (s, [])"
    by (simp add: parsePluginID_def parsePluginID_loop_no_at)
next
  assume "CHR ''@'' \<notin> set q"
  then show "parsePluginID (p @ CHR ''@'' # q) = (p, q)"
    using parsePluginID_loop_split [of q "length q" p] by (simp add: parsePluginID_def)
next
  show "parsePluginID ''multi@at@signs'' = (''multi@at'', ''signs'')"
    by (simp add: parsePluginID_def)
qed

theorem parsePluginID_splits_at_last_at_witness:
  "CHR ''@'' \<notin> set ''no-publisher'' \<and> parsePluginID ''no-publisher'' = (''no-publisher'', []) \<and>
   CHR ''@'' \<notin> set ''pub'' \<and> parsePluginID ''a@b@pub'' = (''a@b'', ''pub'')"
  using parsePluginID_splits_at_last_at [of "''no-publisher''" "''pub''" "''a@b''"] by simp

section \<open>Evaluation of the decoders\<close>

lemmas dec_defs = decSettings_def decSettingsConfig_def decClaudeConfig_def decProjectConfig_def
  decPluginMCPConfig_def decMCPServerConfig_def decPermissions_def decMap_def decStrings_def
  decString_def decBool_def field_def

section \<open>The toggle on an unknown identifier\<close>




section \<open>Fields the engine does not manage\<close>



section \<open>Idempotent toggling\<close>




section \<open>Mutations without a store\<close>

text \<open>
  C4, as stated, fails for the toggle of the settings repository: without a settings file
  \<^verbatim>\<open>ReadSettings\<close> returns empty settings instead of an error, \<^verbatim>\<open>WriteSettings\<close> finds
  nothing to merge into and writes a fresh document, so \<^verbatim>\<open>EnablePlugin\<close> creates the file.
\<close>

theorem EnablePlugin_creates_missing_store:
  "settings_json fs_no_settings = Absent \<and>
   EnablePlugin fs_no_settings ''new@pub'' =
     (None, fs_no_settings\<lparr>settings_json :=
        File (Text (JObj [(''enabledPlugins'', JObj [(''new@pub'', JBool True)])]))\<rparr>)"
  by (simp add: EnablePlugin_def ReadSettings_def WriteSettings_def fs_no_settings_def
      io_defs encSettings_def encBoolMap_def)

text \<open>
  C4, amended. The three mutations of the writer fail with the wrapped read error and
  leave the state as it was when their file does not exist: \<^verbatim>\<open>SetPluginEnabled\<close> on the
  settings, \<^verbatim>\<open>AddMCPServer\<close> and \<^verbatim>\<open>RemoveMCPServer\<close> on the Global Server Store.
  \<^verbatim>\<open>EnablePlugin\<close> and \<^verbatim>\<open>DisablePlugin\<close> of the settings repository instead create a
  settings file that holds the one entry, when the file can be written.
\<close>

theorem writer_mutations_need_existing_store:
  "(settings_json s = Absent \<longrightarrow>
      SetPluginEnabled s pluginID enabled = (Some (Wrap ''failed to read settings'' NotExist), s)) \<and>
   (claude_json s = Absent \<longrightarrow>
      AddMCPServer s name entry = (Some (Wrap ''failed to read claude.json'' NotExist), s) \<and>
      RemoveMCPServer s name = (Some (Wrap ''failed to read claude.json'' NotExist), s)) \<and>
   (settings_json s = Absent \<and> settings_json_writable s \<longrightarrow>
      EnablePlugin s pluginID =
        (None, s\<lparr>settings_json :=
           File (Text (JObj [(''enabledPlugins'', JObj [(pluginID, JBool True)])]))\<rparr>) \<and>
      DisablePlugin s pluginID =
        (None, s\<lparr>settings_json :=
           File (Text (JObj [(''enabledPlugins'', JObj [(pluginID, JBool False)])]))\<rparr>))"
  by (simp add: SetPluginEnabled_def AddMCPServer_def RemoveMCPServer_def EnablePlugin_def
      DisablePlugin_def ReadSettings_def WriteSettings_def encSettings_def encBoolMap_def io_defs)

theorem writer_mutations_need_existing_store_witness:
  "settings_json fs_no_settings = Absent \<and> claude_json fs_no_settings = Absent \<and>
   settings_json_writable fs_no_settings \<and>
   SetPluginEnabled fs_no_settings ''test@pub'' True =
     (Some (Wrap ''failed to read settings'' NotExist), fs_no_settings) \<and>
   AddMCPServer fs_no_settings ''x'' entry_x =
     (Some (Wrap ''failed to read claude.json'' NotExist), fs_no_settings) \<and>
   RemoveMCPServer fs_no_settings ''x'' =
     (Some (Wrap ''failed to read claude.json'' NotExist), fs_no_settings) \<and>
   DisablePlugin fs_no_settings ''test@pub'' =
     (None, fs_no_settings\<lparr>settings_json :=
        File (Text (JObj [(''enabledPlugins'', JObj [(''test@pub'', JBool False)])]))\<rparr>)"
proof -
  have a: "settings_json fs_no_settings = Absent" by (simp add: fs_no_settings_def)
  have b: "claude_json fs_no_settings = Absent" by (simp add: fs_no_settings_def)
  have c: "settings_json_writable fs_no_settings" by (simp add: fs_no_settings_def)
  from writer_mutations_need_existing_store [of fs_no_settings "''test@pub''" True "''x''" entry_x]
    a b c
  show ?thesis by simp
qed

section \<open>The type of a listed server\<close>



section \<open>The order of a listing\<close>

text \<open>
  C6, as stated, fails for the servers: \<^verbatim>\<open>ListMCPServers\<close> appends the servers of the
  plugin cache to those of \<^verbatim>\<open>~/.claude.json\<close> and never sorts, so \<^verbatim>\<open>zeta\<close> of the first
  source comes before \<^verbatim>\<open>alpha\<close> of the second.
\<close>

theorem ListMCPServers_not_sorted:
  "map_sum id (map Name) (ListMCPServers ''/home/u'' fs_two_sources) = Inr [''zeta'', ''alpha''] \<and>
   \<not> sorted [''zeta'', ''alpha'']"
  by (simp add: ListMCPServers_def readClaudeJSON_def readPluginConfigs_def readSettings_def
      readPluginConfigs_entry_def readPluginConfigs_subEntry_def fs_two_sources_def
      io_defs dec_defs Let_def)

lemma map_insort_key: "map f (insort_key f x xs) = insort (f x) (map f xs)"
  by (induction xs) simp_all

lemma map_sort_key: "map f (sort_key f xs) = sort (map f xs)"
  by (induction xs) (simp_all add: map_insort_key)

lemma Execute_ids:
  "map ID (concat (map (\<lambda>(pid, enabled).
      if enabledOnly \<and> \<not> enabled then []
      else (case parsePluginID pid of
              (name, publisher) \<Rightarrow>
                [\<lparr>ID = pid, piName = name, Publisher = publisher, piEnabled = enabled\<rparr>]))
      plugins)) =
   map fst (filter (\<lambda>(pid, enabled). enabled \<or> \<not> enabledOnly) plugins)"
  by (induction plugins) (auto split: prod.splits)

lemma ListMCPServers_names:
  "\<exists>servers. ListMCPServers homeDir s = Inr servers \<and>
     map Name servers = map fst (claudeEntries s @ pluginEntries s)"
proof -
  obtain servers where l: "ListMCPServers homeDir s = Inr servers"
    by (simp add: ListMCPServers_eq)
  then have "map nameType servers =
     map (\<lambda>(name, cfg). (name, resolveType cfg)) (claudeEntries s @ pluginEntries s)"
    using readClaudeJSON_entries [of homeDir s] readPluginConfigs_entries [of homeDir s]
    by (auto simp add: ListMCPServers_eq comp_def)
  then have "map fst (map nameType servers) =
     map fst (map (\<lambda>(name, cfg). (name, resolveType cfg)) (claudeEntries s @ pluginEntries s))"
    by simp
  then have "map Name servers = map fst (claudeEntries s @ pluginEntries s)"
    by (simp add: comp_def nameType_def case_prod_unfold)
  with l show ?thesis by simp
qed

text \<open>
  C6, amended. The list of plugins that \<^verbatim>\<open>Execute\<close> of the list use case returns is sorted
  by identifier, ascending in byte order: its identifiers are the sorted keys of the
  repository's map, without the disabled ones when only enabled plugins are asked for.
  The servers of \<^verbatim>\<open>ListMCPServers\<close> come in the order of their sources, the entries of
  \<^verbatim>\<open>~/.claude.json\<close> before those of the plugin cache, and are not sorted.
\<close>

theorem Execute_sorted_by_ID:
  assumes "ListAll repo s = Inr plugins"
  shows "(\<exists>result. ListUseCase_Execute repo s enabledOnly = Inr result \<and> sorted (map ID result) \<and>
            map ID result =
              sort (map fst (filter (\<lambda>(pid, enabled). enabled \<or> \<not> enabledOnly) plugins))) \<and>
         (\<exists>servers. ListMCPServers homeDir t = Inr servers \<and>
            map Name servers = map fst (claudeEntries t @ pluginEntries t))"
  using assms ListMCPServers_names [of homeDir t]
  by (simp add: ListUseCase_Execute_def map_sort_key Execute_ids)

theorem Execute_sorted_by_ID_witness:
  "ListAll NewPluginRepository fs_three_plugins =
     Inr [(''serena@pub'', False), (''context7@pub'', True), (''greptile@pub'', True)] \<and>
   (\<exists>result. ListUseCase_Execute NewPluginRepository fs_three_plugins True = Inr result \<and>
      sorted (map ID result) \<and> map ID result = [''context7@pub'', ''greptile@pub'']) \<and>
   (\<exists>servers. ListMCPServers ''/home/u'' fs_two_sources = Inr servers \<and>
      map Name servers = [''zeta'', ''alpha''])"
proof -
  have l: "ListAll NewPluginRepository fs_three_plugins =
     Inr [(''serena@pub'', False), (''context7@pub'', True), (''greptile@pub'', True)]"
    by (simp add: NewPluginRepository_def ListAllPlugins_def ReadSettings_def fs_three_plugins_def
        io_defs dec_defs)
  have e: "map fst (claudeEntries fs_two_sources @ pluginEntries fs_two_sources) = [''zeta'', ''alpha'']"
    by (simp add: claudeEntries_def pluginEntries_def descriptorEntries_def fs_two_sources_def dec_defs)
  from Execute_sorted_by_ID [OF l, of True "''/home/u''" fs_two_sources] l e show ?thesis by simp
qed

section \<open>Sources that cannot be read\<close>

text \<open>
  C7. \<^verbatim>\<open>ListMCPServers\<close> never returns an error. When \<^verbatim>\<open>~/.claude.json\<close> cannot be read
  or decoded, the result is the servers of the plugin cache with the overlay of the
  settings; when the plugin cache cannot be read, it is the servers of \<^verbatim>\<open>~/.claude.json\<close>
  with the overlay; when both fail, and so when the file and the cache directory are both
  absent, it is the empty list.
\<close>

theorem ListMCPServers_ignores_failed_sources:
  "(\<forall>err. ListMCPServers homeDir s \<noteq> Inl err) \<and>
   (\<forall>e ps. readClaudeJSON homeDir s = Inl e \<and> readPluginConfigs homeDir s = Inr ps \<longrightarrow>
      ListMCPServers homeDir s = Inr (map (overlay (enabledMap s)) ps)) \<and>
   (\<forall>e cs. readClaudeJSON homeDir s = Inr cs \<and> readPluginConfigs homeDir s = Inl e \<longrightarrow>
      ListMCPServers homeDir s = Inr (map (overlay (enabledMap s)) cs)) \<and>
   (\<forall>e e'. readClaudeJSON homeDir s = Inl e \<and> readPluginConfigs homeDir s = Inl e' \<longrightarrow>
      ListMCPServers homeDir s = Inr []) \<and>
   (claude_json s = Absent \<and> plugin_cache s = None \<longrightarrow> ListMCPServers homeDir s = Inr [])"
  by (auto simp add: ListMCPServers_eq readClaudeJSON_def readPluginConfigs_def os_ReadFile_def Let_def)

lemmas reader_eval = ListMCPServers_def readClaudeJSON_def readPluginConfigs_def readSettings_def
  readPluginConfigs_entry_def readPluginConfigs_subEntry_def io_defs dec_defs Let_def

theorem ListMCPServers_ignores_failed_sources_witness:
  "readClaudeJSON ''/home/u'' fs_plugins_only = Inl NotExist \<and>
   map_sum id (map Name) (readPluginConfigs ''/home/u'' fs_plugins_only) = Inr [''alpha''] \<and>
   map_sum id (map Name) (ListMCPServers ''/home/u'' fs_plugins_only) = Inr [''alpha''] \<and>
   map_sum id (map Name) (readClaudeJSON ''/home/u'' (fs_two_sources\<lparr>plugin_cache := None\<rparr>)) = Inr [''zeta''] \<and>
   readPluginConfigs ''/home/u'' (fs_two_sources\<lparr>plugin_cache := None\<rparr>) = Inl ReadFailure \<and>
   map_sum id (map Name) (ListMCPServers ''/home/u'' (fs_two_sources\<lparr>plugin_cache := None\<rparr>)) = Inr [''zeta''] \<and>
   claude_json fs_no_settings = Absent \<and> plugin_cache fs_no_settings = None \<and>
   ListMCPServers ''/home/u'' fs_no_settings = Inr []"
proof -
  have a: "claude_json fs_no_settings = Absent" and b: "plugin_cache fs_no_settings = None"
    by (simp_all add: fs_no_settings_def)
  have c: "readClaudeJSON ''/home/u'' fs_plugins_only = Inl NotExist"
    by (simp add: fs_plugins_only_def fs_two_sources_def reader_eval)
  obtain ps where d: "readPluginConfigs ''/home/u'' fs_plugins_only = Inr ps"
    and d': "map Name ps = [''alpha'']"
    by (simp add: fs_plugins_only_def fs_two_sources_def reader_eval)
  obtain cs where e: "readClaudeJSON ''/home/u'' (fs_two_sources\<lparr>plugin_cache := None\<rparr>) = Inr cs"
    and e': "map Name cs = [''zeta'']"
    by (simp add: fs_two_sources_def reader_eval)
  have f: "readPluginConfigs ''/home/u'' (fs_two_sources\<lparr>plugin_cache := None\<rparr>) = Inl ReadFailure"
    by (simp add: reader_eval)
  from ListMCPServers_ignores_failed_sources [of "''/home/u''" fs_plugins_only]
    ListMCPServers_ignores_failed_sources [of "''/home/u''" "fs_two_sources\<lparr>plugin_cache := None\<rparr>"]
    ListMCPServers_ignores_failed_sources [of "''/home/u''" fs_no_settings]
    a b c d d' e e' f
  show ?thesis by (simp add: comp_def)
qed


section \<open>Adding and removing a server\<close>

text \<open>
  C8. \<^verbatim>\<open>AddMCPServer\<close> fails with the error \<^verbatim>\<open>already exists\<close> exactly when the name, compared
  as it is written, is present in the managed map \<^verbatim>\<open>mcpServers\<close> of the store; after an
  \<^verbatim>\<open>AddMCPServer\<close> that succeeded, a second one for the same name fails with that error and
  changes nothing. \<^verbatim>\<open>RemoveMCPServer\<close> fails with \<^verbatim>\<open>not found\<close> on a store document in
  which the name is not present, be it that the managed map lacks the name or that there is
  no managed map; after a \<^verbatim>\<open>RemoveMCPServer\<close> that succeeded, a second one for the same
  name fails with that error and changes nothing.
\<close>

theorem addServer_removeServer_presence:
  "(fst (AddMCPServer s name entry) = Some (AlreadyExists n) \<longleftrightarrow> n = name \<and> serverPresent s name) \<and>
   (AddMCPServer s1 name entry = (None, s1') \<longrightarrow>
      AddMCPServer s1' name entry' = (Some (AlreadyExists name), s1')) \<and>
   (isDocument (claude_json s2) \<and> \<not> serverPresent s2 name \<longrightarrow>
      RemoveMCPServer s2 name = (Some (NotFound name), s2)) \<and>
   (RemoveMCPServer s3 name = (None, s3') \<longrightarrow>
      RemoveMCPServer s3' name = (Some (NotFound name), s3'))"
proof (intro conjI impI)
  show "fst (AddMCPServer s name entry) = Some (AlreadyExists n) \<longleftrightarrow> n = name \<and> serverPresent s name"
    by (rule AddMCPServer_exists_iff)
next
  assume "AddMCPServer s1 name entry = (None, s1')"
  then have "serverPresent s1' name" by (rule AddMCPServer_success)
  then have f: "fst (AddMCPServer s1' name entry') = Some (AlreadyExists name)"
    by (simp add: AddMCPServer_exists_iff)
  then have "snd (AddMCPServer s1' name entry') = s1'"
    by (simp add: AddMCPServer_state)
  with f show "AddMCPServer s1' name entry' = (Some (AlreadyExists name), s1')"
    by (simp add: prod_eq_iff)
next
  assume "isDocument (claude_json s2) \<and> \<not> serverPresent s2 name"
  then show "RemoveMCPServer s2 name = (Some (NotFound name), s2)"
    by (simp add: RemoveMCPServer_absent)
next
  assume "RemoveMCPServer s3 name = (None, s3')"
  then have "isDocument (claude_json s3') \<and> \<not> serverPresent s3' name"
    by (rule RemoveMCPServer_success)
  then show "RemoveMCPServer s3' name = (Some (NotFound name), s3')"
    by (simp add: RemoveMCPServer_absent)
qed

lemmas writer_eval = AddMCPServer_def AddMCPServer_serverConfig_def RemoveMCPServer_def
  serverPresent_def managedServers_def isDocument_def io_defs Let_def

theorem addServer_removeServer_presence_witness:
  "AddMCPServer fs_empty_store ''x'' entry_x = (None, fs_store_x) \<and>
   AddMCPServer fs_store_x ''x'' entry_x = (Some (AlreadyExists ''x''), fs_store_x) \<and>
   serverPresent fs_store_x ''x'' \<and>
   RemoveMCPServer fs_store_x ''x'' = (None, fs_empty_store) \<and>
   isDocument (claude_json fs_empty_store) \<and> \<not> serverPresent fs_empty_store ''x'' \<and>
   RemoveMCPServer fs_empty_store ''x'' = (Some (NotFound ''x''), fs_empty_store)"
proof -
  have a: "AddMCPServer fs_empty_store ''x'' entry_x = (None, fs_store_x)"
    by (simp add: fs_empty_store_def fs_store_x_def entry_x_def writer_eval)
  have b: "RemoveMCPServer fs_store_x ''x'' = (None, fs_empty_store)"
    by (simp add: fs_empty_store_def fs_store_x_def writer_eval)
  have c: "isDocument (claude_json fs_empty_store)" "\<not> serverPresent fs_empty_store ''x''"
    by (simp_all add: fs_empty_store_def writer_eval)
  have d: "serverPresent fs_store_x ''x''"
    by (simp add: fs_empty_store_def fs_store_x_def writer_eval)
  from addServer_removeServer_presence [of fs_store_x "''x''" entry_x "''x''" fs_empty_store fs_store_x entry_x fs_empty_store
      fs_store_x fs_empty_store] a b c d
  show ?thesis by simp
qed

end
